theory Spec2Isabelle
  imports Main
begin

section \<open>Stack traces of WTF: capture and dump\<close>

text \<open>
  A shallow embedding of \<^verbatim>\<open>WTFGetBacktrace\<close>, \<^verbatim>\<open>symbolize\<close>,
  \<^verbatim>\<open>StackTrace::captureStackTrace\<close>, \<^verbatim>\<open>StackTrace::demangle\<close> and
  \<^verbatim>\<open>StackTrace::dump\<close>. The preprocessor conditions of the file are the fields of a
  build configuration, the functions of the platform that the file calls are the fields of
  a platform record, and the two ways in which the code can halt are values of a sum type.
\<close>

subsection \<open>Build configuration, platform and faults\<close>

type_synonym addr = nat \<comment> \<open>a \<^verbatim>\<open>void*\<close>, read as an unsigned number\<close>

text \<open>
  The conditions \<^verbatim>\<open>USE(LIBBACKTRACE)\<close>, \<^verbatim>\<open>HAVE(BACKTRACE_SYMBOLS)\<close>,
  \<^verbatim>\<open>HAVE(BACKTRACE)\<close>, \<^verbatim>\<open>HAVE(DLADDR)\<close> and \<^verbatim>\<open>OS(WINDOWS)\<close> are tested
  independently of each other by the source, so they are independent booleans here.
  \<^verbatim>\<open>ASSERT_ENABLED\<close> tells a build in which \<^verbatim>\<open>ASSERT\<close> is compiled in from a
  production build, where it expands to nothing; \<^verbatim>\<open>RELEASE_ASSERT\<close> is compiled in
  in both. The class declaration is in a header outside these sources: the sizes that
  \<^verbatim>\<open>instanceSize\<close> adds up and the distance, in pointer slots, between the member
  \<^verbatim>\<open>m_skippedFrame0\<close> and the array that \<^verbatim>\<open>stack()\<close> returns are parameters.
\<close>

record config =
  USE_LIBBACKTRACE :: bool
  HAVE_BACKTRACE_SYMBOLS :: bool
  HAVE_BACKTRACE :: bool
  HAVE_DLADDR :: bool
  OS_WINDOWS :: bool
  ASSERT_ENABLED :: bool
  sizeof_StackTrace :: nat
  sizeof_pointer :: nat
  size_t_bits :: nat
  stack_slot_offset :: nat

datatype fault = ASSERT_failed | RELEASE_ASSERT_failed

datatype backtrace_state = BacktraceState

record Dl_info =
  dli_fname :: "string option"
  dli_sname :: "string option"

text \<open>
  The platform. \<open>backtrace n\<close> and \<open>RtlCaptureStackBackTrace n\<close> are the addresses that
  the primitive stores, innermost call first, when it is asked for \<open>n\<close> frames; the count
  it reports is the length of that list. \<open>fresh_memory\<close> is what the pointer slots of a
  newly allocated trace hold before anything is stored. \<open>backtrace_pcinfo\<close> and
  \<open>backtrace_syminfo\<close> give the name that the callback of the source leaves in
  \<^verbatim>\<open>symbol\<close>, \<open>None\<close> for a null pointer. \<open>dladdr\<close> is \<open>None\<close> when the call
  returns 0. \<open>backtrace_symbols_entry\<close> is the string that \<^verbatim>\<open>backtrace_symbols\<close>
  makes for one address and \<open>backtrace_symbols_null\<close> says that it returns a null array.
  \<open>format_pointer\<close> is the text of the conversion \<^verbatim>\<open>%p\<close>, which the C library
  defines.
\<close>

record platform =
  backtrace :: "int \<Rightarrow> addr list"
  RtlCaptureStackBackTrace :: "int \<Rightarrow> addr list"
  fresh_memory :: "nat \<Rightarrow> addr"
  backtrace_create_state :: "backtrace_state option"
  backtrace_pcinfo :: "addr \<Rightarrow> string option"
  backtrace_syminfo :: "addr \<Rightarrow> string option"
  cxa_demangle :: "string \<Rightarrow> string option"
  backtrace_symbols_null :: bool
  backtrace_symbols_entry :: "addr \<Rightarrow> string"
  dladdr :: "addr \<Rightarrow> Dl_info option"
  SymFromAddress :: "addr \<Rightarrow> string option"
  format_pointer :: "addr \<Rightarrow> string"

subsection \<open>The trace\<close>

text \<open>
  \<open>m_stack t i\<close> is what \<^verbatim>\<open>stack()[i]\<close> reads. It is a function of the index, since
  the source reads the slot whatever the index is. \<open>m_prefix\<close> is \<open>None\<close> for a null
  pointer.
\<close>

record StackTrace =
  m_size :: int
  m_capacity :: int
  m_prefix :: "string option"
  m_stack :: "nat \<Rightarrow> addr"

subsection \<open>Arithmetic of \<^verbatim>\<open>int\<close>\<close>

text \<open>The value of a 32-bit two's complement \<^verbatim>\<open>int\<close> that a mathematical result wraps to.\<close>

definition int32 :: "int \<Rightarrow> int" where
  "int32 x = (x + 2 ^ 31) mod 2 ^ 32 - 2 ^ 31"

definition is_int32 :: "int \<Rightarrow> bool" where
  "is_int32 x = (- (2 ^ 31) \<le> x \<and> x < 2 ^ 31)"

subsection \<open>Capture\<close>

text \<open>
  \<^verbatim>\<open>WTFGetBacktrace(void** stack, int* size)\<close>: the addresses stored from
  \<^verbatim>\<open>stack\<close> on and the new value of \<^verbatim>\<open>*size\<close>.
\<close>

definition WTFGetBacktrace :: "config \<Rightarrow> platform \<Rightarrow> int \<Rightarrow> addr list \<times> int" where
  "WTFGetBacktrace cfg env size_in =
     (if HAVE_BACKTRACE cfg then
        (backtrace env size_in, int (length (backtrace env size_in)))
      else if OS_WINDOWS cfg then
        (RtlCaptureStackBackTrace env size_in,
         int (length (RtlCaptureStackBackTrace env size_in)))
      else ([], 0))"

definition instanceSize :: "config \<Rightarrow> int \<Rightarrow> fault + nat" where
  "instanceSize cfg capacity =
     (if ASSERT_ENABLED cfg \<and> \<not> capacity \<ge> 1 then Inl ASSERT_failed
      else Inr (nat ((int (sizeof_StackTrace cfg) + (capacity - 1) * int (sizeof_pointer cfg))
                       mod 2 ^ size_t_bits cfg)))"

text \<open>
  \<^verbatim>\<open>StackTrace::captureStackTrace(int maxFrames, int framesToSkip)\<close>. The primitive
  stores into the slots from \<^verbatim>\<open>m_skippedFrame0\<close> on; the other slots keep what the
  allocation left there. Allocation itself is taken to succeed. The constructor is in the
  header: the new trace is taken to have no prefix, and capture sets its size and capacity
  itself on every path that returns. The two additions are those of \<^verbatim>\<open>int\<close> and wrap
  around, as does the subtraction.
\<close>

definition captureStackTrace :: "config \<Rightarrow> platform \<Rightarrow> int \<Rightarrow> int \<Rightarrow> fault + StackTrace" where
  "captureStackTrace cfg env maxFrames0 framesToSkip0 =
     (let maxFrames = max 1 maxFrames0 in
      case instanceSize cfg maxFrames of
        Inl f \<Rightarrow> Inl f
      | Inr sizeToAllocate \<Rightarrow>
          (let framesToSkip = int32 (framesToSkip0 + 2);
               numberOfFrames0 = int32 (maxFrames + framesToSkip);
               stored = fst (WTFGetBacktrace cfg env numberOfFrames0);
               numberOfFrames = snd (WTFGetBacktrace cfg env numberOfFrames0);
               slots = (\<lambda>i. if i < length stored then stored ! i else fresh_memory env i);
               trace = \<lparr>m_size = 0, m_capacity = 0, m_prefix = None,
                        m_stack = (\<lambda>i. slots (i + stack_slot_offset cfg))\<rparr>
           in if numberOfFrames \<noteq> 0 then
                (if numberOfFrames \<ge> framesToSkip then
                   Inr (trace\<lparr>m_size := int32 (numberOfFrames - framesToSkip),
                              m_capacity := maxFrames\<rparr>)
                 else Inl RELEASE_ASSERT_failed)
              else Inr (trace\<lparr>m_size := 0, m_capacity := maxFrames\<rparr>)))"

subsection \<open>Process state\<close>

text \<open>
  What \<^verbatim>\<open>dump\<close> can read and write: the trace it is called on, the texts already
  printed to the \<^verbatim>\<open>PrintStream\<close> (one entry for each call of \<^verbatim>\<open>printf\<close>), the
  function-local static of \<^verbatim>\<open>backtraceState()\<close> (\<open>None\<close> until the first call
  constructs it, then the pointer, which may be null) and the calls of the two lookups of
  libbacktrace made so far, in the order in which they were made.
\<close>

datatype lookup = Pcinfo addr | Syminfo addr

record world =
  w_trace :: StackTrace
  w_out :: "string list"
  w_backtraceState :: "backtrace_state option option"
  w_lookups :: "lookup list"

subsection \<open>The libbacktrace resolver\<close>

definition backtraceState :: "platform \<Rightarrow> world \<Rightarrow> backtrace_state option \<times> world" where
  "backtraceState env w =
     (case w_backtraceState w of
        Some state \<Rightarrow> (state, w)
      | None \<Rightarrow> (backtrace_create_state env,
                 w\<lparr>w_backtraceState := Some (backtrace_create_state env)\<rparr>))"

text \<open>
  The body of the loop of \<^verbatim>\<open>symbolize\<close> for the address \<open>pc\<close>: the string stored in
  \<^verbatim>\<open>symbols[i]\<close> and the state after it.
\<close>

definition symbolize_address :: "platform \<Rightarrow> addr \<Rightarrow> world \<Rightarrow> string \<times> world" where
  "symbolize_address env pc w =
     (let w1 = w\<lparr>w_lookups := w_lookups w @ [Pcinfo pc]\<rparr>;
          symbol1 = backtrace_pcinfo env pc;
          w2 = (if symbol1 = None
                then (snd (backtraceState env w1))
                       \<lparr>w_lookups := w_lookups (snd (backtraceState env w1)) @ [Syminfo pc]\<rparr>
                else w1);
          symbol = (if symbol1 = None then backtrace_syminfo env pc else symbol1)
      in (case symbol of
            Some name \<Rightarrow>
              (case cxa_demangle env name of
                 Some demangled \<Rightarrow> (demangled, w2)
               | None \<Rightarrow> (name, w2))
          | None \<Rightarrow> (''???'', w2)))"

fun symbolize_loop :: "platform \<Rightarrow> addr list \<Rightarrow> world \<Rightarrow> string list \<times> world" where
  "symbolize_loop env [] w = ([], w)"
| "symbolize_loop env (pc # rest) w =
     (let r = symbolize_address env pc w;
          rs = symbolize_loop env rest (snd r)
      in (fst r # fst rs, snd rs))"

text \<open>
  \<^verbatim>\<open>symbolize(void* const* addresses, int size)\<close>; \<open>None\<close> is the null pointer that
  it returns when there is no backend state.
\<close>

definition symbolize :: "platform \<Rightarrow> (nat \<Rightarrow> addr) \<Rightarrow> int \<Rightarrow> world \<Rightarrow> string list option \<times> world" where
  "symbolize env addresses size_in w =
     (case fst (backtraceState env w) of
        None \<Rightarrow> (None, snd (backtraceState env w))
      | Some state \<Rightarrow>
          (let r = symbolize_loop env (map addresses [0..<nat size_in]) (snd (backtraceState env w))
           in (Some (fst r), snd r)))"

subsection \<open>The dynamic loader and the demangler\<close>

record DemangleEntry =
  mangledName :: "string option"
  demangledName :: "string option"

definition demangle :: "config \<Rightarrow> platform \<Rightarrow> addr \<Rightarrow> DemangleEntry option" where
  "demangle cfg env pc =
     (if HAVE_DLADDR cfg then
        (let mangled = (case dladdr env pc of
                          Some info \<Rightarrow> dli_sname info
                        | None \<Rightarrow> None);
             cxaDemangled = (case mangled of
                               Some name \<Rightarrow> cxa_demangle env name
                             | None \<Rightarrow> None)
         in if mangled \<noteq> None \<or> cxaDemangled \<noteq> None
            then Some \<lparr>mangledName = mangled, demangledName = cxaDemangled\<rparr>
            else None)
      else None)"

subsection \<open>Formatting\<close>

text \<open>The conversion \<^verbatim>\<open>%-3d\<close>: decimal digits, then spaces up to a width of 3.\<close>

fun decimal :: "nat \<Rightarrow> string" where
  "decimal n = (if n < 10 then [''0123456789'' ! n]
                else decimal (n div 10) @ [''0123456789'' ! (n mod 10)])"

declare decimal.simps [simp del]

definition format_d :: "int \<Rightarrow> string" where
  "format_d n = (if n < 0 then CHR ''-'' # decimal (nat (- n)) else decimal (nat n))"

definition format_left3_d :: "int \<Rightarrow> string" where
  "format_left3_d n = format_d n @ replicate (3 - length (format_d n)) CHR '' ''"

text \<open>
  The two calls of \<^verbatim>\<open>printf\<close> in \<^verbatim>\<open>dump\<close>, with the formats
  \<^verbatim>\<open>"%s%s%-3d %p %s\n"\<close> and \<^verbatim>\<open>"%s%s%-3d %p\n"\<close>.
\<close>

definition printf_named :: "platform \<Rightarrow> string \<Rightarrow> string \<Rightarrow> int \<Rightarrow> addr \<Rightarrow> string \<Rightarrow> string" where
  "printf_named env pre ind frameNumber pc name =
     pre @ ind @ format_left3_d frameNumber @ '' '' @ format_pointer env pc @ '' '' @ name
       @ [CHR 0x0A]"

definition printf_unnamed :: "platform \<Rightarrow> string \<Rightarrow> string \<Rightarrow> int \<Rightarrow> addr \<Rightarrow> string" where
  "printf_unnamed env pre ind frameNumber pc =
     pre @ ind @ format_left3_d frameNumber @ '' '' @ format_pointer env pc @ [CHR 0x0A]"

subsection \<open>Dump\<close>

text \<open>\<^verbatim>\<open>backtrace_symbols(stack, m_size)\<close>; \<open>None\<close> is a null array.\<close>

definition backtrace_symbols :: "platform \<Rightarrow> (nat \<Rightarrow> addr) \<Rightarrow> int \<Rightarrow> string list option" where
  "backtrace_symbols env buffer size_in =
     (if backtrace_symbols_null env then None
      else Some (map (\<lambda>i. backtrace_symbols_entry env (buffer i)) [0..<nat size_in]))"

text \<open>
  The text that the body of the second loop of \<^verbatim>\<open>dump\<close> prints for the index \<open>i\<close>.
  In the branch that prints a name, one of the two pointers is not null, so the last case
  is never reached.
\<close>

definition dump_frame :: "config \<Rightarrow> platform \<Rightarrow> StackTrace \<Rightarrow> string \<Rightarrow> string list \<Rightarrow> nat \<Rightarrow> string" where
  "dump_frame cfg env t indentString symbols i =
     (let mangled0 = (if HAVE_BACKTRACE_SYMBOLS cfg then Some (symbols ! i)
                      else if OS_WINDOWS cfg then SymFromAddress env (m_stack t i)
                      else None);
          demangled = demangle cfg env (m_stack t i);
          mangled = (case demangled of Some e \<Rightarrow> mangledName e | None \<Rightarrow> mangled0);
          cxaDemangled = (case demangled of Some e \<Rightarrow> demangledName e | None \<Rightarrow> None);
          frameNumber = int i + 1;
          pre = (case m_prefix t of Some p \<Rightarrow> p | None \<Rightarrow> [])
      in if mangled \<noteq> None \<or> cxaDemangled \<noteq> None then
           printf_named env pre indentString frameNumber (m_stack t i)
             (case cxaDemangled of
                Some d \<Rightarrow> d
              | None \<Rightarrow> (case mangled of Some m \<Rightarrow> m | None \<Rightarrow> []))
         else printf_unnamed env pre indentString frameNumber (m_stack t i))"

fun dump_loop :: "config \<Rightarrow> platform \<Rightarrow> string \<Rightarrow> string list \<Rightarrow> nat list \<Rightarrow> world \<Rightarrow> world" where
  "dump_loop cfg env indentString symbols [] w = w"
| "dump_loop cfg env indentString symbols (i # rest) w =
     dump_loop cfg env indentString symbols rest
       (w\<lparr>w_out := w_out w @ [dump_frame cfg env (w_trace w) indentString symbols i]\<rparr>)"

text \<open>
  The first block of \<^verbatim>\<open>dump\<close>, which gets the array \<^verbatim>\<open>symbols\<close>. \<open>None\<close>
  is the null array, on which \<^verbatim>\<open>dump\<close> returns at once. A build with neither
  \<^verbatim>\<open>USE(LIBBACKTRACE)\<close> nor \<^verbatim>\<open>HAVE(BACKTRACE_SYMBOLS)\<close> declares no array
  and never reads one: the empty list stands for it.
\<close>

definition dump_symbols :: "config \<Rightarrow> platform \<Rightarrow> world \<Rightarrow> string list option \<times> world" where
  "dump_symbols cfg env w =
     (if USE_LIBBACKTRACE cfg then
        symbolize env (m_stack (w_trace w)) (m_size (w_trace w)) w
      else if HAVE_BACKTRACE_SYMBOLS cfg then
        (backtrace_symbols env (m_stack (w_trace w)) (m_size (w_trace w)), w)
      else (Some [], w))"

text \<open>
  \<^verbatim>\<open>StackTrace::dump(PrintStream& out, const char* indentString)\<close>, called on the
  trace of the state. \<open>None\<close> is a null \<^verbatim>\<open>indentString\<close>. A build with
  \<^verbatim>\<open>USE(LIBBACKTRACE)\<close> and \<^verbatim>\<open>OS(WINDOWS)\<close> but without
  \<^verbatim>\<open>HAVE(BACKTRACE_SYMBOLS)\<close> does not compile, since the loop would use variables
  that the first block did not declare.
\<close>

definition dump :: "config \<Rightarrow> platform \<Rightarrow> string option \<Rightarrow> world \<Rightarrow> world" where
  "dump cfg env indentString0 w =
     (case fst (dump_symbols cfg env w) of
        None \<Rightarrow> snd (dump_symbols cfg env w)
      | Some symbols \<Rightarrow>
          dump_loop cfg env (case indentString0 of None \<Rightarrow> [] | Some s \<Rightarrow> s) symbols
            [0..<nat (m_size (w_trace w))] (snd (dump_symbols cfg env w)))"

text \<open>
  Modelled from the spec: the class declaration, with the operation that sets the prefix, is
  not among the sources. The spec calls the prefix a settable display prefix with no effect
  on capture or resolution, used only by the formatter.
\<close>

definition setPrefix :: "string \<Rightarrow> StackTrace \<Rightarrow> StackTrace" where
  "setPrefix p t = t\<lparr>m_prefix := Some p\<rparr>"

subsection \<open>Names for the quantities of capture\<close>

text \<open>
  The total skip count (\<^verbatim>\<open>framesToSkip\<close> after \<^verbatim>\<open>framesToSkip += 2\<close>), the count
  that capture asks the primitive for and the count that the primitive reports back.
\<close>

definition totalFramesToSkip :: "int \<Rightarrow> int" where
  "totalFramesToSkip framesToSkip = int32 (framesToSkip + 2)"

definition requestedFrames :: "int \<Rightarrow> int \<Rightarrow> int" where
  "requestedFrames maxFrames framesToSkip =
     int32 (max 1 maxFrames + totalFramesToSkip framesToSkip)"

definition reportedFrames :: "config \<Rightarrow> platform \<Rightarrow> int \<Rightarrow> int \<Rightarrow> int" where
  "reportedFrames cfg env maxFrames framesToSkip =
     snd (WTFGetBacktrace cfg env (requestedFrames maxFrames framesToSkip))"

subsection \<open>Names for the quantities of dump\<close>

text \<open>
  The backend state that a call of \<^verbatim>\<open>backtraceState()\<close> returns in a state, the
  string that \<^verbatim>\<open>symbolize\<close> stores for one address, the lookups it makes for it, and
  the name that a line of \<^verbatim>\<open>dump\<close> shows after the address: the demangled name if
  the dynamic loader and the demangler give one, else the raw name of the dynamic loader,
  else the entry of the symbol array or the name of the debug helper, else nothing.
\<close>

definition backend_state :: "platform \<Rightarrow> world \<Rightarrow> backtrace_state option" where
  "backend_state env w = fst (backtraceState env w)"

definition symbol_text :: "platform \<Rightarrow> addr \<Rightarrow> string" where
  "symbol_text env pc =
     (case (case backtrace_pcinfo env pc of
              Some name \<Rightarrow> Some name
            | None \<Rightarrow> backtrace_syminfo env pc) of
        Some name \<Rightarrow> (case cxa_demangle env name of Some d \<Rightarrow> d | None \<Rightarrow> name)
      | None \<Rightarrow> ''???'')"

definition lookups_for :: "platform \<Rightarrow> addr \<Rightarrow> lookup list" where
  "lookups_for env pc =
     (case backtrace_pcinfo env pc of
        Some name \<Rightarrow> [Pcinfo pc]
      | None \<Rightarrow> [Pcinfo pc, Syminfo pc])"

definition fallback_name :: "config \<Rightarrow> platform \<Rightarrow> string list \<Rightarrow> nat \<Rightarrow> addr \<Rightarrow> string option" where
  "fallback_name cfg env symbols i pc =
     (if HAVE_BACKTRACE_SYMBOLS cfg then Some (symbols ! i)
      else if OS_WINDOWS cfg then SymFromAddress env pc
      else None)"

definition shown_name :: "config \<Rightarrow> platform \<Rightarrow> string list \<Rightarrow> nat \<Rightarrow> addr \<Rightarrow> string option" where
  "shown_name cfg env symbols i pc =
     (case demangle cfg env pc of
        Some e \<Rightarrow> (case demangledName e of Some d \<Rightarrow> Some d | None \<Rightarrow> mangledName e)
      | None \<Rightarrow> fallback_name cfg env symbols i pc)"

definition frame_line :: "platform \<Rightarrow> StackTrace \<Rightarrow> string \<Rightarrow> nat \<Rightarrow> string option \<Rightarrow> string" where
  "frame_line env t indentString i name =
     (case m_prefix t of Some p \<Rightarrow> p | None \<Rightarrow> []) @ indentString
       @ format_left3_d (int i + 1) @ '' '' @ format_pointer env (m_stack t i)
       @ (case name of Some n \<Rightarrow> '' '' @ n | None \<Rightarrow> [])
       @ [CHR 0x0A]"

text \<open>
  The symbol array that \<^verbatim>\<open>dump\<close> gets in a state, and the lines that it then
  prints: none without the array, else one for each index below \<^verbatim>\<open>m_size\<close>, in
  ascending order.
\<close>

definition symbol_array :: "config \<Rightarrow> platform \<Rightarrow> world \<Rightarrow> string list option" where
  "symbol_array cfg env w =
     (if USE_LIBBACKTRACE cfg then
        (case backend_state env w of
           None \<Rightarrow> None
         | Some state \<Rightarrow>
             Some (map (\<lambda>i. symbol_text env (m_stack (w_trace w) i))
                     [0..<nat (m_size (w_trace w))]))
      else if HAVE_BACKTRACE_SYMBOLS cfg then
        backtrace_symbols env (m_stack (w_trace w)) (m_size (w_trace w))
      else Some [])"

definition dump_lines :: "config \<Rightarrow> platform \<Rightarrow> string option \<Rightarrow> world \<Rightarrow> string list" where
  "dump_lines cfg env indentString w =
     (case symbol_array cfg env w of
        None \<Rightarrow> []
      | Some symbols \<Rightarrow>
          map (\<lambda>i. frame_line env (w_trace w) (case indentString of None \<Rightarrow> [] | Some s \<Rightarrow> s) i
                      (shown_name cfg env symbols i (m_stack (w_trace w) i)))
            [0..<nat (m_size (w_trace w))])"

text \<open>What a call of \<^verbatim>\<open>dump\<close> in the state \<open>w\<close> prints: the entries it adds to the sink.\<close>

definition printed_by :: "config \<Rightarrow> platform \<Rightarrow> string option \<Rightarrow> world \<Rightarrow> string list" where
  "printed_by cfg env indentString w =
     drop (length (w_out w)) (w_out (dump cfg env indentString w))"

subsection \<open>Builds and platforms to run the model on\<close>

fun hex :: "nat \<Rightarrow> string" where
  "hex n = (if n < 16 then [''0123456789abcdef'' ! n]
            else hex (n div 16) @ [''0123456789abcdef'' ! (n mod 16)])"

declare hex.simps [simp del]

definition base_build :: config where
  "base_build =
     \<lparr>USE_LIBBACKTRACE = False, HAVE_BACKTRACE_SYMBOLS = False, HAVE_BACKTRACE = False,
      HAVE_DLADDR = False, OS_WINDOWS = False, ASSERT_ENABLED = False,
      sizeof_StackTrace = 40, sizeof_pointer = 8, size_t_bits = 64, stack_slot_offset = 2\<rparr>"

definition posix_build :: config where
  "posix_build =
     base_build\<lparr>HAVE_BACKTRACE_SYMBOLS := True, HAVE_BACKTRACE := True, HAVE_DLADDR := True\<rparr>"

definition dladdr_build :: config where
  "dladdr_build = base_build\<lparr>HAVE_BACKTRACE := True, HAVE_DLADDR := True\<rparr>"

definition libbacktrace_build :: config where
  "libbacktrace_build = posix_build\<lparr>USE_LIBBACKTRACE := True\<rparr>"

definition windows_build :: config where
  "windows_build = base_build\<lparr>OS_WINDOWS := True\<rparr>"

text \<open>
  A platform whose call stack is \<open>stk\<close>, innermost call first, and whose primitive stores
  as many of its addresses as it is asked for. The address 100 has debug information and
  an encoded name, 200 has only an entry in the symbol table, every other address is
  unknown to every lookup.
\<close>

definition platform_of_stack :: "addr list \<Rightarrow> platform" where
  "platform_of_stack stk =
     \<lparr>backtrace = (\<lambda>n. take (nat n) stk),
      RtlCaptureStackBackTrace = (\<lambda>n. take (nat n) stk),
      fresh_memory = (\<lambda>i. 0),
      backtrace_create_state = Some BacktraceState,
      backtrace_pcinfo = (\<lambda>pc. if pc = 100 then Some ''_Z3foov'' else None),
      backtrace_syminfo = (\<lambda>pc. if pc = 200 then Some ''bar'' else None),
      cxa_demangle = (\<lambda>name. if name = ''_Z3foov'' then Some ''foo()'' else None),
      backtrace_symbols_null = False,
      backtrace_symbols_entry = (\<lambda>pc. ''prog [0x'' @ hex pc @ '']''),
      dladdr = (\<lambda>pc. if pc = 100 then Some \<lparr>dli_fname = Some ''prog'', dli_sname = Some ''_Z3foov''\<rparr>
                      else if pc = 200 then Some \<lparr>dli_fname = Some ''prog'', dli_sname = Some ''bar''\<rparr>
                      else if pc = 300 then Some \<lparr>dli_fname = Some ''prog'', dli_sname = None\<rparr>
                      else None),
      SymFromAddress = (\<lambda>pc. if pc = 200 then Some ''bar'' else None),
      format_pointer = (\<lambda>pc. ''0x'' @ hex pc)\<rparr>"

definition trace_of :: "addr list \<Rightarrow> StackTrace" where
  "trace_of stk =
     \<lparr>m_size = int (length stk), m_capacity = int (length stk), m_prefix = None,
      m_stack = (\<lambda>i. if i < length stk then stk ! i else 0)\<rparr>"

definition world_of :: "StackTrace \<Rightarrow> world" where
  "world_of t = \<lparr>w_trace = t, w_out = [], w_backtraceState = None, w_lookups = []\<rparr>"

section \<open>Properties of capture\<close>

subsection \<open>Wrap-around\<close>

lemma int32_id: "is_int32 x \<Longrightarrow> int32 x = x"
  by (simp add: int32_def is_int32_def)

lemma int32_range: "is_int32 (int32 x)"
  by (simp add: int32_def is_int32_def)

lemma int32_wrap_high:
  assumes "2 ^ 31 \<le> x" and "x < 2 ^ 32 + 2 ^ 31"
  shows "int32 x = x - 2 ^ 32"
proof -
  have "(x + 2 ^ 31 - 2 ^ 32 + 2 ^ 32) mod (2 ^ 32 :: int) = (x + 2 ^ 31 - 2 ^ 32) mod 2 ^ 32"
    by (rule mod_add_self2)
  moreover have "(x + 2 ^ 31 - 2 ^ 32) mod 2 ^ 32 = x + 2 ^ 31 - 2 ^ 32"
    using assms by (intro mod_pos_pos_trivial) simp_all
  ultimately have "(x + 2 ^ 31) mod 2 ^ 32 = x + 2 ^ 31 - 2 ^ 32"
    by (simp add: algebra_simps)
  then show ?thesis by (simp add: int32_def)
qed

subsection \<open>The three outcomes of capture\<close>

lemma instanceSize_ok: "1 \<le> c \<Longrightarrow> \<exists>n. instanceSize cfg c = Inr n"
  by (simp add: instanceSize_def)

lemma reportedFrames_nonneg: "0 \<le> reportedFrames cfg env maxFrames framesToSkip"
  by (simp add: reportedFrames_def WTFGetBacktrace_def)

text \<open>
  The assertion of \<^verbatim>\<open>instanceSize\<close> never fails, since the capacity was raised to 1
  before. What is left are the three branches after the call of the primitive.
\<close>

lemma capture_unfold:
  "captureStackTrace cfg env maxFrames framesToSkip =
     (if reportedFrames cfg env maxFrames framesToSkip = 0 then
        Inr \<lparr>m_size = 0, m_capacity = max 1 maxFrames, m_prefix = None,
             m_stack = (\<lambda>i. let stored = fst (WTFGetBacktrace cfg env
                                                (requestedFrames maxFrames framesToSkip));
                                j = i + stack_slot_offset cfg
                            in if j < length stored then stored ! j else fresh_memory env j)\<rparr>
      else if totalFramesToSkip framesToSkip \<le> reportedFrames cfg env maxFrames framesToSkip then
        Inr \<lparr>m_size = int32 (reportedFrames cfg env maxFrames framesToSkip
                              - totalFramesToSkip framesToSkip),
             m_capacity = max 1 maxFrames, m_prefix = None,
             m_stack = (\<lambda>i. let stored = fst (WTFGetBacktrace cfg env
                                                (requestedFrames maxFrames framesToSkip));
                                j = i + stack_slot_offset cfg
                            in if j < length stored then stored ! j else fresh_memory env j)\<rparr>
      else Inl RELEASE_ASSERT_failed)"
proof -
  obtain n where "instanceSize cfg (max 1 maxFrames) = Inr n"
    using instanceSize_ok [of "max 1 maxFrames" cfg] by auto
  then show ?thesis
    by (simp add: captureStackTrace_def reportedFrames_def requestedFrames_def
        totalFramesToSkip_def Let_def)
qed

text \<open>
  The size of a returned trace, for arguments in the range of \<^verbatim>\<open>int\<close> and a
  primitive that stores at most what it is asked for (nothing when the request is not
  positive). A sum that wraps around makes the request negative, so the primitive stores
  nothing; otherwise the difference is between 0 and the capacity and does not wrap.
\<close>

lemma capture_size_bounds:
  assumes mf: "is_int32 maxFrames" and fs: "is_int32 framesToSkip"
      and rep: "reportedFrames cfg env maxFrames framesToSkip
                  \<le> max 0 (requestedFrames maxFrames framesToSkip)"
      and cap: "captureStackTrace cfg env maxFrames framesToSkip = Inr t"
  shows "0 \<le> m_size t \<and> m_size t \<le> max 1 maxFrames \<and> m_capacity t = max 1 maxFrames"
proof (cases "reportedFrames cfg env maxFrames framesToSkip = 0")
  case True
  with cap show ?thesis by (auto simp: capture_unfold)
next
  case False
  define r where "r = reportedFrames cfg env maxFrames framesToSkip"
  define S where "S = totalFramesToSkip framesToSkip"
  define M where "M = max 1 maxFrames"
  define N where "N = requestedFrames maxFrames framesToSkip"
  have r1: "1 \<le> r"
    using False reportedFrames_nonneg [of cfg env maxFrames framesToSkip] by (simp add: r_def)
  have S_le: "S \<le> r" and t_eq: "m_size t = int32 (r - S)" "m_capacity t = M"
    using cap False by (auto simp: capture_unfold r_def S_def M_def split: if_splits)
  have N1: "r \<le> N" using rep r1 by (simp add: r_def N_def)
  have S_rng: "is_int32 S" by (simp add: S_def totalFramesToSkip_def int32_range)
  have M_rng: "1 \<le> M" "M < 2 ^ 31" using mf by (simp_all add: M_def is_int32_def)
  have N_eq: "N = int32 (M + S)" by (simp add: N_def requestedFrames_def M_def S_def)
  have nowrap: "M + S < 2 ^ 31"
  proof (rule ccontr)
    assume "\<not> M + S < 2 ^ 31"
    then have "2 ^ 31 \<le> M + S" by simp
    moreover have "M + S < 2 ^ 32 + 2 ^ 31" using M_rng S_rng by (simp add: is_int32_def)
    ultimately have "N = M + S - 2 ^ 32" by (simp add: N_eq int32_wrap_high)
    with M_rng S_rng have "N < 0" by (simp add: is_int32_def)
    with N1 r1 show False by simp
  qed
  have "is_int32 (M + S)" using nowrap M_rng S_rng by (simp add: is_int32_def)
  then have "N = M + S" by (simp add: N_eq int32_id)
  with N1 S_le have bounds: "0 \<le> r - S" "r - S \<le> M" by simp_all
  with M_rng have "is_int32 (r - S)" by (simp add: is_int32_def)
  then have "m_size t = r - S" by (simp add: t_eq int32_id)
  with bounds t_eq show ?thesis by (simp add: M_def)
qed

subsection \<open>A report shorter than the skip count\<close>

text \<open>
  C1, as stated, fails. The spec's own scenario, \<open>maxFrames = 1\<close> and
  \<open>framesToSkip = 1000\<close> on a stack of depth 5, in a production build (no
  \<^verbatim>\<open>ASSERT\<close>): the primitive reports 5 frames, the total skip count is 1002, and
  capture does not return a trace of size 0 but halts on its \<^verbatim>\<open>RELEASE_ASSERT\<close>.
\<close>

theorem capture_short_report_counterexample:
  "\<not> ASSERT_ENABLED posix_build
   \<and> reportedFrames posix_build (platform_of_stack [10, 20, 30, 40, 50]) 1 1000 = 5
   \<and> totalFramesToSkip 1000 = 1002
   \<and> captureStackTrace posix_build (platform_of_stack [10, 20, 30, 40, 50]) 1 1000
       = Inl RELEASE_ASSERT_failed"
  by (simp add: captureStackTrace_def instanceSize_def reportedFrames_def requestedFrames_def
      totalFramesToSkip_def posix_build_def base_build_def platform_of_stack_def
      WTFGetBacktrace_def int32_def Let_def)

text \<open>
  C1, amended. Whenever the primitive reports a nonzero frame count smaller than the total
  skip count, capture returns no trace: it halts on the \<^verbatim>\<open>RELEASE_ASSERT\<close>, in
  every build, with or without \<^verbatim>\<open>ASSERT\<close>. Nothing is clamped.
\<close>

theorem capture_short_report_halts:
  assumes "reportedFrames cfg env maxFrames framesToSkip \<noteq> 0"
      and "reportedFrames cfg env maxFrames framesToSkip < totalFramesToSkip framesToSkip"
  shows "captureStackTrace cfg env maxFrames framesToSkip = Inl RELEASE_ASSERT_failed"
  using assms by (simp add: capture_unfold)

theorem capture_short_report_halts_witness:
  "captureStackTrace (windows_build\<lparr>ASSERT_ENABLED := True\<rparr>) (platform_of_stack [10, 20]) 4 3
     = Inl RELEASE_ASSERT_failed
   \<and> captureStackTrace windows_build (platform_of_stack [10, 20]) 4 3
     = Inl RELEASE_ASSERT_failed"
proof -
  have r: "reportedFrames cfg (platform_of_stack [10, 20]) 4 3 = 2" if "OS_WINDOWS cfg" for cfg
    using that
    by (simp add: reportedFrames_def requestedFrames_def totalFramesToSkip_def
        platform_of_stack_def WTFGetBacktrace_def int32_def)
  have s: "totalFramesToSkip 3 = 5"
    by (simp add: totalFramesToSkip_def int32_def)
  have w: "OS_WINDOWS (windows_build\<lparr>ASSERT_ENABLED := True\<rparr>)" "OS_WINDOWS windows_build"
    by (simp_all add: windows_build_def base_build_def)
  show ?thesis
    using capture_short_report_halts
            [of "windows_build\<lparr>ASSERT_ENABLED := True\<rparr>" "platform_of_stack [10, 20]" 4 3]
          capture_short_report_halts [of windows_build "platform_of_stack [10, 20]" 4 3]
    by (simp add: r [OF w(1)] r [OF w(2)] s)
qed

subsection \<open>The size is at most the requested maximum\<close>

text \<open>
  C2. For every \<open>maxFrames \<ge> 1\<close> and \<open>framesToSkip \<ge> 0\<close>, both values of an
  \<^verbatim>\<open>int\<close>, and every frame count that the primitive reports, as long as it is at
  most the count it was asked for (and 0 when that count is not positive): a trace that
  capture returns has \<open>size \<le> maxFrames\<close>.
\<close>

theorem capture_size_at_most_maxFrames:
  assumes "1 \<le> maxFrames" and "is_int32 maxFrames"
      and "0 \<le> framesToSkip" and "is_int32 framesToSkip"
      and "reportedFrames cfg env maxFrames framesToSkip
             \<le> max 0 (requestedFrames maxFrames framesToSkip)"
      and "captureStackTrace cfg env maxFrames framesToSkip = Inr t"
  shows "m_size t \<le> maxFrames"
  using capture_size_bounds [OF assms(2) assms(4) assms(5) assms(6)] assms(1) by simp

theorem capture_size_at_most_maxFrames_witness:
  "(case captureStackTrace posix_build (platform_of_stack [10, 20, 30, 40, 50, 60]) 3 1 of
      Inr t \<Rightarrow> m_size t \<le> 3
    | Inl f \<Rightarrow> False)"
proof -
  define t where
    "t = projr (captureStackTrace posix_build (platform_of_stack [10, 20, 30, 40, 50, 60]) 3 1)"
  have c: "captureStackTrace posix_build (platform_of_stack [10, 20, 30, 40, 50, 60]) 3 1 = Inr t"
    by (simp add: t_def captureStackTrace_def instanceSize_def posix_build_def base_build_def
        platform_of_stack_def WTFGetBacktrace_def int32_def Let_def)
  have r: "reportedFrames posix_build (platform_of_stack [10, 20, 30, 40, 50, 60]) 3 1
             \<le> max 0 (requestedFrames 3 1)"
    by (simp add: reportedFrames_def requestedFrames_def totalFramesToSkip_def
        posix_build_def base_build_def platform_of_stack_def WTFGetBacktrace_def int32_def)
  have "m_size t \<le> 3"
    using capture_size_at_most_maxFrames [OF _ _ _ _ r c] by (simp add: is_int32_def)
  then show ?thesis by (simp add: c)
qed

subsection \<open>No backtrace primitive\<close>

text \<open>
  C3. On a platform without a backtrace primitive (neither \<^verbatim>\<open>HAVE(BACKTRACE)\<close> nor
  \<^verbatim>\<open>OS(WINDOWS)\<close>, so that \<^verbatim>\<open>WTFGetBacktrace\<close> reports zero frames) capture
  returns a trace, not a fault, and its size is 0, for every \<open>maxFrames\<close> and
  \<open>framesToSkip\<close> and in builds with and without assertions.
\<close>

theorem capture_without_backtrace_is_empty:
  assumes "\<not> HAVE_BACKTRACE cfg" and "\<not> OS_WINDOWS cfg"
  shows "\<exists>t. captureStackTrace cfg env maxFrames framesToSkip = Inr t \<and> m_size t = 0"
proof -
  have "reportedFrames cfg env maxFrames framesToSkip = 0"
    using assms by (simp add: reportedFrames_def WTFGetBacktrace_def)
  then show ?thesis by (simp add: capture_unfold)
qed

theorem capture_without_backtrace_is_empty_witness:
  "\<exists>t. captureStackTrace (base_build\<lparr>ASSERT_ENABLED := True\<rparr>)
          (platform_of_stack [10, 20, 30]) 0 7 = Inr t \<and> m_size t = 0"
  using capture_without_backtrace_is_empty
          [of "base_build\<lparr>ASSERT_ENABLED := True\<rparr>" "platform_of_stack [10, 20, 30]" 0 7]
  by (simp add: base_build_def)

subsection \<open>Invariants of a captured trace\<close>

lemma backtraceState_snd:
  "w_out (snd (backtraceState env w)) = w_out w"
  "w_trace (snd (backtraceState env w)) = w_trace w"
  "w_lookups (snd (backtraceState env w)) = w_lookups w"
  "backend_state env (snd (backtraceState env w)) = backend_state env w"
  by (simp_all add: backtraceState_def backend_state_def split: option.splits)

lemma symbolize_address_fst: "fst (symbolize_address env pc w) = symbol_text env pc"
  by (simp add: symbolize_address_def symbol_text_def Let_def split: option.splits)

lemma symbolize_address_snd:
  "w_out (snd (symbolize_address env pc w)) = w_out w"
  "w_trace (snd (symbolize_address env pc w)) = w_trace w"
  "w_lookups (snd (symbolize_address env pc w)) = w_lookups w @ lookups_for env pc"
  "backend_state env (snd (symbolize_address env pc w)) = backend_state env w"
  by (simp_all add: symbolize_address_def backtraceState_def backend_state_def lookups_for_def
      Let_def split: option.splits)

lemma symbolize_loop_fst: "fst (symbolize_loop env pcs w) = map (symbol_text env) pcs"
  by (induction pcs arbitrary: w) (simp_all add: Let_def symbolize_address_fst)

lemma symbolize_loop_snd:
  "w_out (snd (symbolize_loop env pcs w)) = w_out w"
  "w_trace (snd (symbolize_loop env pcs w)) = w_trace w"
  "w_lookups (snd (symbolize_loop env pcs w)) = w_lookups w @ concat (map (lookups_for env) pcs)"
  "backend_state env (snd (symbolize_loop env pcs w)) = backend_state env w"
  by (induction pcs arbitrary: w; simp add: Let_def symbolize_address_snd)+

lemma symbolize_fst:
  "fst (symbolize env addresses n w) =
     (case backend_state env w of
        None \<Rightarrow> None
      | Some state \<Rightarrow> Some (map (\<lambda>i. symbol_text env (addresses i)) [0..<nat n]))"
  by (simp add: symbolize_def backend_state_def Let_def symbolize_loop_fst comp_def
      split: option.splits)

lemma symbolize_snd:
  "w_out (snd (symbolize env addresses n w)) = w_out w"
  "w_trace (snd (symbolize env addresses n w)) = w_trace w"
  "backend_state env (snd (symbolize env addresses n w)) = backend_state env w"
  by (simp_all add: symbolize_def Let_def backtraceState_snd symbolize_loop_snd
      split: option.splits)

lemma symbolize_lookups:
  "w_lookups (snd (symbolize env addresses n w)) =
     (case backend_state env w of
        None \<Rightarrow> w_lookups w
      | Some state \<Rightarrow>
          w_lookups w @ concat (map (\<lambda>i. lookups_for env (addresses i)) [0..<nat n]))"
  by (simp add: symbolize_def Let_def backend_state_def backtraceState_snd symbolize_loop_snd
      comp_def split: option.splits)

lemma dump_symbols_fst: "fst (dump_symbols cfg env w) = symbol_array cfg env w"
  by (simp add: dump_symbols_def symbol_array_def symbolize_fst)

lemma dump_symbols_snd:
  "w_out (snd (dump_symbols cfg env w)) = w_out w"
  "w_trace (snd (dump_symbols cfg env w)) = w_trace w"
  "backend_state env (snd (dump_symbols cfg env w)) = backend_state env w"
  by (simp_all add: dump_symbols_def symbolize_snd)

lemma dump_loop_snd:
  "w_out (dump_loop cfg env ind syms is w)
     = w_out w @ map (dump_frame cfg env (w_trace w) ind syms) is"
  "w_trace (dump_loop cfg env ind syms is w) = w_trace w"
  "w_backtraceState (dump_loop cfg env ind syms is w) = w_backtraceState w"
  "w_lookups (dump_loop cfg env ind syms is w) = w_lookups w"
  by (induction "is" arbitrary: w; simp)+

lemma dump_loop_backend:
  "backend_state env (dump_loop cfg env ind syms is w) = backend_state env w"
  by (simp add: backend_state_def backtraceState_def dump_loop_snd split: option.splits)

lemma demangle_Some: "demangle cfg env pc = Some e \<Longrightarrow> mangledName e \<noteq> None"
  by (auto simp: demangle_def Let_def split: if_splits option.splits)

text \<open>The body of the loop of \<^verbatim>\<open>dump\<close> prints the line with the name shown.\<close>

lemma dump_frame_line:
  "dump_frame cfg env t ind symbols i =
     frame_line env t ind i (shown_name cfg env symbols i (m_stack t i))"
proof (cases "demangle cfg env (m_stack t i)")
  case None
  then show ?thesis
    by (simp add: dump_frame_def frame_line_def shown_name_def fallback_name_def
        printf_named_def printf_unnamed_def Let_def split: option.splits)
next
  case (Some e)
  with demangle_Some [OF Some] show ?thesis
    by (auto simp: dump_frame_def frame_line_def shown_name_def
        printf_named_def printf_unnamed_def Let_def split: option.splits)
qed

lemma dump_out: "w_out (dump cfg env ind w) = w_out w @ dump_lines cfg env ind w"
  by (simp add: dump_def dump_lines_def dump_symbols_fst dump_symbols_snd dump_loop_snd
      dump_frame_line split: option.splits)

lemma dump_trace: "w_trace (dump cfg env ind w) = w_trace w"
  by (simp add: dump_def dump_symbols_snd dump_loop_snd split: option.splits)

lemma dump_backend: "backend_state env (dump cfg env ind w) = backend_state env w"
  by (simp add: dump_def dump_symbols_snd dump_loop_backend split: option.splits)

lemma dump_lines_cong:
  "w_trace w' = w_trace w \<Longrightarrow> backend_state env w' = backend_state env w
     \<Longrightarrow> dump_lines cfg env ind w' = dump_lines cfg env ind w"
  unfolding dump_lines_def symbol_array_def by metis

lemma dump_null_indent: "dump cfg env None w = dump cfg env (Some []) w"
  by (simp add: dump_def split: option.splits)

text \<open>The padding of a frame number of one digit.\<close>

lemma pad_two: "replicate 2 c = [c, c]"
  by (simp add: numeral_2_eq_2)

text \<open>
  C9. For arguments in the range of \<^verbatim>\<open>int\<close> and a primitive that stores at most
  what it is asked for, every trace that capture returns has a capacity equal to
  \<open>maxFrames\<close> raised to at least 1 and a size between 0 and the capacity. No later
  operation changes either field: a dump, a second dump and setting the prefix leave the
  size and the capacity as capture set them, and a dump leaves the whole trace as it was.
\<close>

theorem capture_invariants:
  assumes "is_int32 maxFrames" and "is_int32 framesToSkip"
      and "reportedFrames cfg env maxFrames framesToSkip
             \<le> max 0 (requestedFrames maxFrames framesToSkip)"
      and "captureStackTrace cfg env maxFrames framesToSkip = Inr t"
  shows "m_capacity t = max 1 maxFrames \<and> 1 \<le> m_capacity t
       \<and> 0 \<le> m_size t \<and> m_size t \<le> m_capacity t
       \<and> w_trace (dump cfg' env' indentString (w\<lparr>w_trace := t\<rparr>)) = t
       \<and> w_trace (dump cfg' env' indentString (dump cfg' env' indentString (w\<lparr>w_trace := t\<rparr>)))
           = t
       \<and> m_size (setPrefix p t) = m_size t \<and> m_capacity (setPrefix p t) = m_capacity t
       \<and> w_trace (dump cfg' env' indentString (w\<lparr>w_trace := setPrefix p t\<rparr>)) = setPrefix p t"
  using capture_size_bounds [OF assms]
  by (simp add: dump_trace setPrefix_def)

theorem capture_invariants_witness:
  "(case captureStackTrace posix_build (platform_of_stack [10, 20, 30, 40, 50, 60, 70]) 0 2 of
      Inr t \<Rightarrow> m_capacity t = 1 \<and> m_size t = 1
               \<and> m_size (w_trace (dump posix_build (platform_of_stack []) None (world_of t))) = 1
               \<and> m_capacity (w_trace (dump posix_build (platform_of_stack []) None (world_of t))) = 1
               \<and> m_size (setPrefix ''# '' t) = 1
    | Inl f \<Rightarrow> False)"
proof -
  define t where
    "t = projr (captureStackTrace posix_build (platform_of_stack [10, 20, 30, 40, 50, 60, 70]) 0 2)"
  have c: "captureStackTrace posix_build (platform_of_stack [10, 20, 30, 40, 50, 60, 70]) 0 2 = Inr t"
    by (simp add: t_def captureStackTrace_def instanceSize_def posix_build_def base_build_def
        platform_of_stack_def WTFGetBacktrace_def int32_def Let_def)
  have s: "m_size t = 1"
    by (simp add: t_def captureStackTrace_def instanceSize_def posix_build_def base_build_def
        platform_of_stack_def WTFGetBacktrace_def int32_def Let_def)
  have r: "reportedFrames posix_build (platform_of_stack [10, 20, 30, 40, 50, 60, 70]) 0 2
             \<le> max 0 (requestedFrames 0 2)"
    by (simp add: reportedFrames_def requestedFrames_def totalFramesToSkip_def
        posix_build_def base_build_def platform_of_stack_def WTFGetBacktrace_def int32_def)
  have w: "world_of t = (world_of t)\<lparr>w_trace := t\<rparr>"
    by (simp add: world_of_def)
  have "m_capacity t = 1 \<and> m_size t = 1
               \<and> m_size (w_trace (dump posix_build (platform_of_stack []) None (world_of t))) = 1
               \<and> m_capacity (w_trace (dump posix_build (platform_of_stack []) None (world_of t))) = 1
               \<and> m_size (setPrefix ''# '' t) = 1"
    using capture_invariants [OF _ _ r c, of posix_build "platform_of_stack []" None
            "world_of t" "''# ''"]
    by (simp add: is_int32_def s w [symmetric])
  then show ?thesis by (simp add: c)
qed

section \<open>Properties of dump\<close>

subsection \<open>The lines of a dump\<close>

text \<open>
  C4, as stated, fails in two ways. A trace of size 1 whose address no lookup knows, dumped
  in the build for Windows: the line ends after the address, there is no placeholder. The
  same trace dumped in a build with libbacktrace whose backend state is null: no line is
  written at all.
\<close>

theorem dump_placeholder_counterexample:
  "m_size (trace_of [7]) = 1
   \<and> w_out (dump windows_build (platform_of_stack []) None (world_of (trace_of [7])))
       = [''1   0x7'' @ [CHR 0x0A]]
   \<and> w_out (dump libbacktrace_build ((platform_of_stack [])\<lparr>backtrace_create_state := None\<rparr>)
              None (world_of (trace_of [7])))
       = []"
  by (simp add: dump_def dump_symbols_def symbolize_def backtraceState_def
      windows_build_def libbacktrace_build_def posix_build_def base_build_def
      platform_of_stack_def world_of_def trace_of_def dump_frame_def demangle_def
      printf_named_def printf_unnamed_def format_left3_d_def format_d_def
      decimal.simps hex.simps Let_def pad_two)

text \<open>
  C4, amended. A dump that gets no symbol array writes nothing; that happens with
  \<^verbatim>\<open>USE(LIBBACKTRACE)\<close> when the backend state is null and, without it, with
  \<^verbatim>\<open>HAVE(BACKTRACE_SYMBOLS)\<close> when \<^verbatim>\<open>backtrace_symbols\<close> returns null. Every
  other dump writes exactly one line for each index below the size, in capture order. The
  line holds the prefix, the indent, the 1-based frame number, the raw address and then,
  when a name was found, a space and the name, demangled if the demangler gave a form, raw
  otherwise. When no name was found the line ends after the address.
\<close>

theorem dump_one_line_per_frame:
  "w_out (dump cfg env indentString w) =
     w_out w @
       (case fst (dump_symbols cfg env w) of
          None \<Rightarrow> []
        | Some symbols \<Rightarrow>
            map (\<lambda>i. frame_line env (w_trace w)
                        (case indentString of None \<Rightarrow> [] | Some s \<Rightarrow> s) i
                        (shown_name cfg env symbols i (m_stack (w_trace w) i)))
              [0..<nat (m_size (w_trace w))])
   \<and> (fst (dump_symbols cfg env w) = None) =
       (USE_LIBBACKTRACE cfg \<and> backend_state env w = None
        \<or> \<not> USE_LIBBACKTRACE cfg \<and> HAVE_BACKTRACE_SYMBOLS cfg \<and> backtrace_symbols_null env)"
proof -
  have "(symbol_array cfg env w = None) =
       (USE_LIBBACKTRACE cfg \<and> backend_state env w = None
        \<or> \<not> USE_LIBBACKTRACE cfg \<and> HAVE_BACKTRACE_SYMBOLS cfg \<and> backtrace_symbols_null env)"
    by (simp add: symbol_array_def backtrace_symbols_def split: option.splits)
  then show ?thesis
    by (simp add: dump_out dump_lines_def dump_symbols_fst)
qed

theorem dump_one_line_per_frame_witness:
  "w_out (dump dladdr_build (platform_of_stack []) (Some ''> '')
            (world_of (trace_of [100, 200, 7])))
     = [''> 1   0x64 foo()'' @ [CHR 0x0A], ''> 2   0xc8 bar'' @ [CHR 0x0A],
        ''> 3   0x7'' @ [CHR 0x0A]]"
proof -
  define W where "W = world_of (trace_of [100, 200, 7])"
  have s: "fst (dump_symbols dladdr_build (platform_of_stack []) W) = Some []"
    by (simp add: dump_symbols_def dladdr_build_def base_build_def)
  have t: "w_trace W = trace_of [100, 200, 7]" "w_out W = []"
    by (simp_all add: W_def world_of_def)
  have "w_out (dump dladdr_build (platform_of_stack []) (Some ''> '') W)
          = map (\<lambda>i. frame_line (platform_of_stack []) (trace_of [100, 200, 7]) ''> '' i
                        (shown_name dladdr_build (platform_of_stack []) [] i
                           (m_stack (trace_of [100, 200, 7]) i)))
              [0..<nat (m_size (trace_of [100, 200, 7]))]"
    using dump_one_line_per_frame [of dladdr_build "platform_of_stack []" "Some ''> ''" W]
    unfolding s t by simp
  also have "\<dots> = [''> 1   0x64 foo()'' @ [CHR 0x0A], ''> 2   0xc8 bar'' @ [CHR 0x0A],
                     ''> 3   0x7'' @ [CHR 0x0A]]"
    by (simp add: frame_line_def shown_name_def fallback_name_def demangle_def
        dladdr_build_def base_build_def platform_of_stack_def trace_of_def
        format_left3_d_def format_d_def decimal.simps hex.simps Let_def upt_rec
        pad_two)
  finally show ?thesis by (simp only: W_def)
qed

subsection \<open>Dumping twice\<close>

text \<open>
  C5. Two successive dumps of the same trace, on the same platform, print the same lines:
  what the second call adds to the sink is what the first call added. A dump leaves the
  trace as it was, after one call and after two. The only state that a dump changes besides
  the sink is the static backend state, which the first call may construct and the second
  then finds.
\<close>

theorem dump_twice_prints_the_same:
  "printed_by cfg env indentString (dump cfg env indentString w)
     = printed_by cfg env indentString w
   \<and> w_out (dump cfg env indentString (dump cfg env indentString w))
       = w_out w @ printed_by cfg env indentString w @ printed_by cfg env indentString w
   \<and> w_trace (dump cfg env indentString w) = w_trace w
   \<and> w_trace (dump cfg env indentString (dump cfg env indentString w)) = w_trace w"
proof -
  have p: "printed_by cfg env indentString v = dump_lines cfg env indentString v" for v
    by (simp add: printed_by_def dump_out)
  have "dump_lines cfg env indentString (dump cfg env indentString w)
          = dump_lines cfg env indentString w"
    by (rule dump_lines_cong) (simp_all add: dump_trace dump_backend)
  then show ?thesis
    by (simp add: p dump_out dump_trace)
qed

theorem dump_twice_prints_the_same_witness:
  "printed_by libbacktrace_build (platform_of_stack []) None
     (dump libbacktrace_build (platform_of_stack []) None (world_of (trace_of [100, 7])))
   = [''1   0x64 foo()'' @ [CHR 0x0A], ''2   0x7 ???'' @ [CHR 0x0A]]"
proof -
  have "printed_by libbacktrace_build (platform_of_stack []) None (world_of (trace_of [100, 7]))
          = [''1   0x64 foo()'' @ [CHR 0x0A], ''2   0x7 ???'' @ [CHR 0x0A]]"
    by (simp add: printed_by_def dump_def dump_symbols_def symbolize_def symbolize_address_def
        backtraceState_def libbacktrace_build_def posix_build_def base_build_def
        platform_of_stack_def world_of_def trace_of_def dump_frame_def demangle_def
        printf_named_def printf_unnamed_def format_left3_d_def format_d_def
        decimal.simps hex.simps Let_def upt_rec pad_two)
  with dump_twice_prints_the_same [of libbacktrace_build "platform_of_stack []" None
         "world_of (trace_of [100, 7])"]
  show ?thesis by simp
qed

subsection \<open>The libbacktrace resolver\<close>

text \<open>
  C6. With libbacktrace, the resolution of one address calls the lookup with file and line
  information first and calls the lookup in the symbol table after it exactly when the
  first one left no name; the name of the first lookup, when there is one, is the one
  used. \<^verbatim>\<open>symbolize\<close> does this for each address in order. When the backend state
  is null, \<^verbatim>\<open>symbolize\<close> returns the null array, for any addresses, and makes no
  lookup.
\<close>

theorem symbolize_precise_lookup_first:
  "fst (symbolize_address env pc w) = symbol_text env pc
   \<and> w_lookups (snd (symbolize_address env pc w))
       = w_lookups w @ (if backtrace_pcinfo env pc = None then [Pcinfo pc, Syminfo pc]
                        else [Pcinfo pc])
   \<and> (backend_state env w = None \<longrightarrow>
        fst (symbolize env addresses n w) = None
        \<and> w_lookups (snd (symbolize env addresses n w)) = w_lookups w)
   \<and> (backend_state env w \<noteq> None \<longrightarrow>
        fst (symbolize env addresses n w)
          = Some (map (\<lambda>i. symbol_text env (addresses i)) [0..<nat n])
        \<and> w_lookups (snd (symbolize env addresses n w))
            = w_lookups w
                @ concat (map (\<lambda>i. if backtrace_pcinfo env (addresses i) = None
                                     then [Pcinfo (addresses i), Syminfo (addresses i)]
                                     else [Pcinfo (addresses i)])
                            [0..<nat n]))"
proof -
  have l: "lookups_for env a = (if backtrace_pcinfo env a = None then [Pcinfo a, Syminfo a]
                                else [Pcinfo a])" for a
    by (simp add: lookups_for_def split: option.splits)
  show ?thesis
    by (auto simp: symbolize_address_fst symbolize_address_snd symbolize_fst symbolize_lookups l)
qed

theorem symbolize_precise_lookup_first_witness:
  "fst (symbolize (platform_of_stack []) (m_stack (trace_of [100, 200, 7])) 3
          (world_of (trace_of [100, 200, 7])))
     = Some [''foo()'', ''bar'', ''???'']
   \<and> w_lookups (snd (symbolize (platform_of_stack []) (m_stack (trace_of [100, 200, 7])) 3
          (world_of (trace_of [100, 200, 7]))))
     = [Pcinfo 100, Pcinfo 200, Syminfo 200, Pcinfo 7, Syminfo 7]
   \<and> fst (symbolize ((platform_of_stack [])\<lparr>backtrace_create_state := None\<rparr>)
            (m_stack (trace_of [100, 200, 7])) 3 (world_of (trace_of [100, 200, 7])))
     = None"
proof -
  define W where "W = world_of (trace_of [100, 200, 7])"
  define P where "P = platform_of_stack []"
  define A where "A = m_stack (trace_of [100, 200, 7])"
  have b: "backend_state P W \<noteq> None"
    "backend_state (P\<lparr>backtrace_create_state := None\<rparr>) W = None"
    and lw: "w_lookups W = []"
    by (simp_all add: backend_state_def backtraceState_def W_def P_def world_of_def
        platform_of_stack_def)
  have names: "map (\<lambda>i. symbol_text P (A i)) [0..<nat 3] = [''foo()'', ''bar'', ''???'']"
    by (simp add: symbol_text_def P_def A_def platform_of_stack_def trace_of_def upt_rec)
  have looks: "concat (map (\<lambda>i. if backtrace_pcinfo P (A i) = None
                                     then [Pcinfo (A i), Syminfo (A i)]
                                     else [Pcinfo (A i)]) [0..<nat 3])
         = [Pcinfo 100, Pcinfo 200, Syminfo 200, Pcinfo 7, Syminfo 7]"
    by (simp add: P_def A_def platform_of_stack_def trace_of_def upt_rec)
  have "fst (symbolize P A 3 W) = Some [''foo()'', ''bar'', ''???'']
        \<and> w_lookups (snd (symbolize P A 3 W))
            = [Pcinfo 100, Pcinfo 200, Syminfo 200, Pcinfo 7, Syminfo 7]"
    using symbolize_precise_lookup_first [of P 0 W A 3] b(1) by (simp only: names looks lw) simp
  moreover have "fst (symbolize (P\<lparr>backtrace_create_state := None\<rparr>) A 3 W) = None"
    using symbolize_precise_lookup_first [of "P\<lparr>backtrace_create_state := None\<rparr>" 0 W A 3] b(2)
    by simp
  ultimately show ?thesis by (simp only: W_def P_def A_def)
qed

subsection \<open>The dynamic loader and the demangler\<close>

text \<open>
  C7. With \<^verbatim>\<open>HAVE(DLADDR)\<close>, for every address: when the query for the nearest
  preceding symbol gives no symbol name (the call fails or the name is null),
  \<^verbatim>\<open>demangle\<close> returns nothing. When it gives a raw name, \<^verbatim>\<open>demangle\<close> returns
  the raw name with what the demangler made of it, and the line for a frame with that
  address shows the demangled form if there is one and the raw name unchanged otherwise.
\<close>

theorem demangle_prefers_demangled_name:
  assumes "HAVE_DLADDR cfg" and "m_stack t i = pc"
  shows "((case dladdr env pc of Some info \<Rightarrow> dli_sname info | None \<Rightarrow> None) = None
            \<longrightarrow> demangle cfg env pc = None)
       \<and> ((case dladdr env pc of Some info \<Rightarrow> dli_sname info | None \<Rightarrow> None) = Some raw
            \<longrightarrow> demangle cfg env pc
                  = Some \<lparr>mangledName = Some raw, demangledName = cxa_demangle env raw\<rparr>
                \<and> dump_frame cfg env t indentString symbols i
                    = printf_named env (case m_prefix t of Some p \<Rightarrow> p | None \<Rightarrow> [])
                        indentString (int i + 1) pc
                        (case cxa_demangle env raw of Some d \<Rightarrow> d | None \<Rightarrow> raw))"
  using assms
  by (auto simp: demangle_def dump_frame_def Let_def split: option.splits)

theorem demangle_prefers_demangled_name_witness:
  "demangle dladdr_build (platform_of_stack []) 7 = None
   \<and> dump_frame dladdr_build (platform_of_stack []) (trace_of [100, 200, 7]) [] [] 0
       = ''1   0x64 foo()'' @ [CHR 0x0A]
   \<and> dump_frame dladdr_build (platform_of_stack []) (trace_of [100, 200, 7]) [] [] 1
       = ''2   0xc8 bar'' @ [CHR 0x0A]"
proof -
  define P where "P = platform_of_stack []"
  define T where "T = trace_of [100, 200, 7]"
  have h: "HAVE_DLADDR dladdr_build" by (simp add: dladdr_build_def base_build_def)
  have a: "m_stack T 0 = 100" "m_stack T 1 = 200" "m_stack T 2 = 7" "m_prefix T = None"
    by (simp_all add: T_def trace_of_def)
  have d: "(case dladdr P 7 of Some info \<Rightarrow> dli_sname info | None \<Rightarrow> None) = None"
    "(case dladdr P 100 of Some info \<Rightarrow> dli_sname info | None \<Rightarrow> None) = Some ''_Z3foov''"
    "(case dladdr P 200 of Some info \<Rightarrow> dli_sname info | None \<Rightarrow> None) = Some ''bar''"
    "cxa_demangle P ''_Z3foov'' = Some ''foo()''" "cxa_demangle P ''bar'' = None"
    by (simp_all add: P_def platform_of_stack_def)
  have p: "printf_named P [] [] 1 100 ''foo()'' = ''1   0x64 foo()'' @ [CHR 0x0A]"
    "printf_named P [] [] 2 200 ''bar'' = ''2   0xc8 bar'' @ [CHR 0x0A]"
    by (simp_all add: printf_named_def P_def platform_of_stack_def format_left3_d_def
        format_d_def decimal.simps hex.simps pad_two)
  have "demangle dladdr_build P 7 = None"
    using demangle_prefers_demangled_name [OF h a(3), of P] d(1) by simp
  moreover have "dump_frame dladdr_build P T [] [] 0 = ''1   0x64 foo()'' @ [CHR 0x0A]"
    using demangle_prefers_demangled_name [OF h a(1), of P "''_Z3foov''" "[]" "[]"]
      d(2,4) a(4) p(1)
    by simp
  moreover have "dump_frame dladdr_build P T [] [] 1 = ''2   0xc8 bar'' @ [CHR 0x0A]"
    using demangle_prefers_demangled_name [OF h a(2), of P "''bar''" "[]" "[]"]
      d(3,5) a(4) p(2)
    by simp
  ultimately show ?thesis by (simp only: P_def T_def)
qed

subsection \<open>The empty trace\<close>

text \<open>
  C8. A dump of a trace of size 0 adds nothing to the sink, in every build and on every
  platform. \<^verbatim>\<open>dump\<close> has no assertion and no other way to halt, so the model gives
  it no fault to return.
\<close>

theorem dump_of_empty_trace_prints_nothing:
  assumes "m_size (w_trace w) = 0"
  shows "w_out (dump cfg env indentString w) = w_out w"
  using assms by (simp add: dump_out dump_lines_def split: option.splits)

theorem dump_of_empty_trace_prints_nothing_witness:
  "w_out (dump posix_build (platform_of_stack []) (Some ''  '') (world_of (trace_of []))) = []
   \<and> w_out (dump libbacktrace_build (platform_of_stack []) None (world_of (trace_of []))) = []
   \<and> w_out (dump windows_build (platform_of_stack []) None (world_of (trace_of []))) = []"
  using dump_of_empty_trace_prints_nothing [of "world_of (trace_of [])" posix_build
          "platform_of_stack []" "Some ''  ''"]
        dump_of_empty_trace_prints_nothing [of "world_of (trace_of [])" libbacktrace_build
          "platform_of_stack []" None]
        dump_of_empty_trace_prints_nothing [of "world_of (trace_of [])" windows_build
          "platform_of_stack []" None]
  by (simp add: world_of_def trace_of_def)

subsection \<open>Null strings\<close>

text \<open>
  C10. A dump with a null indent is the dump with the empty indent, and a trace with a null
  prefix is dumped as the same trace with the empty prefix is: the whole output is the
  same, and so is each line.
\<close>

theorem dump_tolerates_null_strings:
  "dump cfg env None w = dump cfg env (Some []) w
   \<and> w_out (dump cfg env indentString (w\<lparr>w_trace := (w_trace w)\<lparr>m_prefix := None\<rparr>\<rparr>))
       = w_out (dump cfg env indentString (w\<lparr>w_trace := (w_trace w)\<lparr>m_prefix := Some []\<rparr>\<rparr>))
   \<and> dump_frame cfg env (t\<lparr>m_prefix := None\<rparr>) ind symbols i
       = dump_frame cfg env (t\<lparr>m_prefix := Some []\<rparr>) ind symbols i"
proof -
  have "dump_lines cfg env indentString (w\<lparr>w_trace := (w_trace w)\<lparr>m_prefix := None\<rparr>\<rparr>)
        = dump_lines cfg env indentString (w\<lparr>w_trace := (w_trace w)\<lparr>m_prefix := Some []\<rparr>\<rparr>)"
    by (simp add: dump_lines_def symbol_array_def backend_state_def backtraceState_def
        frame_line_def split: option.splits)
  then show ?thesis
    by (simp add: dump_null_indent dump_out dump_frame_line frame_line_def)
qed

theorem dump_tolerates_null_strings_witness:
  "w_out (dump windows_build (platform_of_stack []) None (world_of (trace_of [200])))
     = [''1   0xc8 bar'' @ [CHR 0x0A]]
   \<and> w_out (dump windows_build (platform_of_stack []) None (world_of (trace_of [200])))
     = w_out (dump windows_build (platform_of_stack []) (Some [])
               (world_of ((trace_of [200])\<lparr>m_prefix := Some []\<rparr>)))"
proof -
  define W where "W = world_of (trace_of [200])"
  have e: "w_out (dump windows_build (platform_of_stack []) (Some [])
                   (world_of ((trace_of [200])\<lparr>m_prefix := Some []\<rparr>)))
     = [''1   0xc8 bar'' @ [CHR 0x0A]]"
    by (simp add: dump_def dump_symbols_def windows_build_def base_build_def
      platform_of_stack_def world_of_def trace_of_def dump_frame_def demangle_def
      printf_named_def printf_unnamed_def format_left3_d_def format_d_def
      decimal.simps hex.simps Let_def pad_two)
  have w1: "W\<lparr>w_trace := (w_trace W)\<lparr>m_prefix := None\<rparr>\<rparr> = W"
    and w2: "W\<lparr>w_trace := (w_trace W)\<lparr>m_prefix := Some []\<rparr>\<rparr>
               = world_of ((trace_of [200])\<lparr>m_prefix := Some []\<rparr>)"
    by (simp_all add: W_def world_of_def trace_of_def)
  have "w_out (dump windows_build (platform_of_stack []) None W)
         = w_out (dump windows_build (platform_of_stack []) (Some [])
                    (world_of ((trace_of [200])\<lparr>m_prefix := Some []\<rparr>)))"
    using dump_tolerates_null_strings [of windows_build "platform_of_stack []" W "Some []"]
    by (simp only: w1 w2)
  with e show ?thesis by (simp only: W_def)
qed

end
